theory Spec2Isabelle
  imports Main "HOL-Library.Word"
begin

section \<open>BlinkStick device facade (src/blinkstickcpp/src/device.cpp)\<close>

text \<open>
  A shallow embedding of the message codec (the anonymous namespace of device.cpp) and of
  the member functions of \<open>blinkstick::device\<close>. Bytes (\<open>uint8_t\<close>) are 8-bit words; the
  C++ \<open>int\<close> parameters are integers, converted to bytes where the source converts them.
  The two hidapi entry points are external: they are parameters of the model.
\<close>

type_synonym byte = "8 word"

text \<open>A \<open>hid_device*\<close> held by the shared pointer: \<open>None\<close> is the null pointer.\<close>

type_synonym hid_device = nat

text \<open>
  Modelled from the spec: the struct \<open>colour\<close> is declared in blinkstick/device.h, which
  is absent; the spec gives it three independent 8-bit channels.
\<close>

record colour =
  red :: byte
  green :: byte
  blue :: byte

definition black :: colour where
  "black = \<lparr>red = 0, green = 0, blue = 0\<rparr>"

subsection \<open>Message codec\<close>

text \<open>\<open>std::array<uint8_t, 3>\<close> is a triple of bytes.\<close>

definition rgb_to_char :: "byte \<Rightarrow> byte \<Rightarrow> byte \<Rightarrow> byte \<times> byte \<times> byte" where
  "rgb_to_char r g b = (and r 0xff, and g 0xff, and b 0xff)"

definition build_control_message :: "byte \<Rightarrow> byte \<Rightarrow> byte \<times> byte \<times> byte \<Rightarrow> byte list" where
  "build_control_message index channel color =
     (case color of (c0, c1, c2) \<Rightarrow>
        if index = 0 \<and> channel = 0 then [0x1, c0, c1, c2]
        else [0x5, channel, index, c0, c1, c2])"

text \<open>
  The enumeration \<open>blinkstick::mode\<close> is declared in the absent header: a mode is its
  underlying integer value, and \<open>static_cast<uint8_t>\<close> keeps its low eight bits.
\<close>

definition build_mode_message :: "int \<Rightarrow> byte list" where
  "build_mode_message mode = [0x0004, word_of_int mode]"

definition build_count_message :: "byte \<Rightarrow> byte list" where
  "build_count_message count = [0x81, count]"

definition determine_report_id :: "int \<Rightarrow> byte \<times> byte" where
  "determine_report_id count =
     (let max_leds = 64; report_id = 9 in
      if count \<le> 8 * 3 then (6, 8)
      else if count \<le> 16 * 3 then (7, 16)
      else if count \<le> 32 * 3 then (8, 32)
      else if count \<le> 64 * 3 then (9, 64)
      else if count \<le> 128 * 3 then (10, 64)
      else (report_id, max_leds))"

subsection \<open>Transport\<close>

text \<open>
  One entry of the log of transport calls: the handle and the buffer passed, the integer
  returned and, for a read, the bytes the transport wrote into the buffer.
\<close>

datatype call =
    Send_report "hid_device option" "byte list" int
  | Get_report "hid_device option" "byte list" int "byte list"

fun is_send :: "call \<Rightarrow> bool" where
  "is_send (Send_report h msg r) = True"
| "is_send (Get_report h msg r w) = False"

fun call_result :: "call \<Rightarrow> int" where
  "call_result (Send_report h msg r) = r"
| "call_result (Get_report h msg r w) = r"

fun call_buffer :: "call \<Rightarrow> byte list" where
  "call_buffer (Send_report h msg r) = msg"
| "call_buffer (Get_report h msg r w) = msg"

text \<open>
  The environment of the facade: \<open>hid_send_feature_report\<close> and
  \<open>hid_get_feature_report\<close> of hidapi, whose answers may depend on the calls made so
  far, and the indeterminate initial contents of an uninitialised local array.
\<close>

record env =
  hid_send_feature_report :: "call list \<Rightarrow> hid_device option \<Rightarrow> byte list \<Rightarrow> int"
  hid_get_feature_report :: "call list \<Rightarrow> hid_device option \<Rightarrow> byte list \<Rightarrow> int \<times> byte list"
  indeterminate :: "nat \<Rightarrow> byte"

text \<open>
  Modelled from the spec: the members of \<open>device\<close> are declared in the absent header.
  The object holds the shared handle and the mutable cache of the LED count, an optional
  value that is unset at construction; the only values the source stores in it are bytes
  (\<open>data[1]\<close> and the \<open>uint8_t\<close> argument of \<open>set_led_count\<close>). \<open>calls\<close> is the
  log of transport calls, kept beside the object to count them; the device type tag takes
  no part in any exchange and is left out.
\<close>

record device =
  handle :: "hid_device option"
  led_count :: "byte option"
  calls :: "call list"

text \<open>
  A read hands the buffer to the transport, which overwrites a prefix of it in place: the
  buffer keeps its size, and the bytes the transport does not write keep their values.
\<close>

definition overwrite :: "byte list \<Rightarrow> byte list \<Rightarrow> byte list" where
  "overwrite written msg = take (length msg) written @ drop (length written) msg"

definition get_feature_report :: "env \<Rightarrow> device \<Rightarrow> byte list \<Rightarrow> int \<times> byte list \<times> device" where
  "get_feature_report e d msg =
     (case hid_get_feature_report e (calls d) (handle d) msg of (result, written) \<Rightarrow>
        (result,
         overwrite written msg,
         d\<lparr>calls := calls d @ [Get_report (handle d) msg result written]\<rparr>))"

text \<open>A send takes the buffer as \<open>const\<close>: the caller's copy is unchanged.\<close>

definition send_feature_report :: "env \<Rightarrow> device \<Rightarrow> byte list \<Rightarrow> int \<times> device" where
  "send_feature_report e d msg =
     (let result = hid_send_feature_report e (calls d) (handle d) msg in
      (result, d\<lparr>calls := calls d @ [Send_report (handle d) msg result]\<rparr>))"

subsection \<open>Device facade\<close>

definition set_mode :: "env \<Rightarrow> device \<Rightarrow> int \<Rightarrow> bool \<times> device" where
  "set_mode e d mode =
     (let msg = build_mode_message mode in
      if handle d = None then (False, d)
      else case send_feature_report e d msg of (result, d') \<Rightarrow>
        if result = - 1 then (False, d') else (True, d'))"

text \<open>\<open>unknown\<close> is the value of \<open>mode::unknown\<close>, an enumerator of the absent header.\<close>

definition get_mode :: "env \<Rightarrow> int \<Rightarrow> device \<Rightarrow> int \<times> device" where
  "get_mode e unknown d =
     (let data = build_mode_message unknown in
      case send_feature_report e d data of (result, d') \<Rightarrow>
        if result = - 1 then (unknown, d') else (uint (data ! 1), d'))"

text \<open>
  The parameters \<open>r\<close>, \<open>g\<close>, \<open>b\<close> are the source's \<open>red\<close>, \<open>green\<close>, \<open>blue\<close>; every
  \<open>int\<close> argument is narrowed to \<open>uint8_t\<close> at the call of the codec.
\<close>

definition set_colour :: "env \<Rightarrow> device \<Rightarrow> int \<Rightarrow> int \<Rightarrow> int \<Rightarrow> int \<Rightarrow> int \<Rightarrow> bool \<times> device" where
  "set_colour e d channel index r g b =
     (if handle d = None then (False, d)
      else
        let color = rgb_to_char (word_of_int r) (word_of_int g) (word_of_int b);
            msg = build_control_message (word_of_int index) (word_of_int channel) color
        in case send_feature_report e d msg of (result, d') \<Rightarrow>
          if result = - 1 then (False, d') else (True, d'))"

definition get_led_count :: "env \<Rightarrow> device \<Rightarrow> int \<times> device" where
  "get_led_count e d =
     (case led_count d of
        Some c \<Rightarrow> (uint c, d)
      | None \<Rightarrow>
          let data = build_count_message 0 in
          case get_feature_report e d data of (result, data', d') \<Rightarrow>
            (uint (data' ! 1), d'\<lparr>led_count := Some (data' ! 1)\<rparr>))"

definition set_led_count :: "env \<Rightarrow> device \<Rightarrow> byte \<Rightarrow> bool \<times> device" where
  "set_led_count e d count =
     (if handle d = None then (False, d)
      else
        let msg = build_count_message count in
        case send_feature_report e d msg of (result, d') \<Rightarrow>
          if result = - 1 then (False, d')
          else (True, d'\<lparr>led_count := Some count\<rparr>))"

text \<open>
  The copying loop of \<open>set_colours\<close>: \<open>i\<close> counts the colours, \<open>index\<close> is the write
  position, advanced three times per colour.
\<close>

function copy_colours :: "colour list \<Rightarrow> nat \<Rightarrow> nat \<Rightarrow> nat \<Rightarrow> byte list \<Rightarrow> byte list" where
  "copy_colours colours colourSize i index msg =
     (if i < colourSize then
        copy_colours colours colourSize (i + 1) (index + 3)
          (msg[index := green (colours ! i),
               index + 1 := red (colours ! i),
               index + 2 := blue (colours ! i)])
      else msg)"
  by pat_completeness auto
termination
  by (relation "measure (\<lambda>(colours, colourSize, i, index, msg). colourSize - i)") auto

declare copy_colours.simps [simp del]

definition set_colours :: "env \<Rightarrow> device \<Rightarrow> int \<Rightarrow> colour list \<Rightarrow> bool \<times> device" where
  "set_colours e d channel colours =
     (if handle d = None then (False, d)
      else case get_led_count e d of (n, d1) \<Rightarrow>
        case determine_report_id (n * 3) of (report_id, max_leds) \<Rightarrow>
          let msg = replicate (unat max_leds * 3 + 2) 0;
              msg = msg[0 := report_id];
              msg = msg[1 := word_of_int channel];
              colourSize = min (word_of_nat (length colours)) max_leds;
              msg = copy_colours colours (unat colourSize) 0 2 msg
          in case send_feature_report e d1 msg of (result, d2) \<Rightarrow>
            if result = - 1 then (False, d2) else (True, d2))"

text \<open>
  Reading past the end of a buffer and overflowing an \<open>int\<close> are undefined in the source:
  the model returns them as errors.
\<close>

datatype error = Out_of_bounds | Signed_overflow

definition at_index :: "byte list \<Rightarrow> int \<Rightarrow> byte option" where
  "at_index data i = (if 0 \<le> i \<and> nat i < length data then Some (data ! nat i) else None)"

definition in_int_range :: "int \<Rightarrow> bool" where
  "in_int_range x = (- 2147483648 \<le> x \<and> x \<le> 2147483647)"

text \<open>The request buffer of \<open>get_colour\<close> for an index other than 0.\<close>

definition get_colour_request :: "int \<Rightarrow> byte list" where
  "get_colour_request index =
     (let count = (index + 1) * 3 in
      case determine_report_id count of (report_id, max_leds) \<Rightarrow>
        (replicate (unat max_leds * 3 + 2) 0)[0 := report_id])"

definition get_colour :: "env \<Rightarrow> device \<Rightarrow> int \<Rightarrow> (error + colour) \<times> device" where
  "get_colour e d index =
     (if index = 0 then
        let data = (map (indeterminate e) [0..<33])[0 := 0x0001] in
        case get_feature_report e d data of (result, data', d') \<Rightarrow>
          if result = - 1 then (Inr black, d')
          else (Inr \<lparr>red = data' ! 1, green = data' ! 2, blue = data' ! 3\<rparr>, d')
      else if \<not> (in_int_range ((index + 1) * 3) \<and> in_int_range (index * 3 + 4)) then
        (Inl Signed_overflow, d)
      else
        let data = get_colour_request index in
        case get_feature_report e d data of (result, data', d') \<Rightarrow>
          if result = - 1 then (Inr black, d')
          else
            (case (at_index data' (index * 3 + 3),
                   at_index data' (index * 3 + 2),
                   at_index data' (index * 3 + 4)) of
               (Some rv, Some gv, Some bv) \<Rightarrow> (Inr \<lparr>red = rv, green = gv, blue = bv\<rparr>, d')
             | _ \<Rightarrow> (Inl Out_of_bounds, d')))"

text \<open>An environment whose transport answers every call the same way.\<close>

definition constant_env :: "int \<Rightarrow> int \<Rightarrow> byte list \<Rightarrow> env" where
  "constant_env send_result get_result reply =
     \<lparr>hid_send_feature_report = (\<lambda>log h msg. send_result),
      hid_get_feature_report = (\<lambda>log h msg. (get_result, reply)),
      indeterminate = (\<lambda>i. 0)\<rparr>"

definition new_device :: "hid_device option \<Rightarrow> device" where
  "new_device h = \<lparr>handle = h, led_count = None, calls = []\<rparr>"

text \<open>
  What a sending operation reports: it made at least one transport call, the last of them
  a send, and its boolean result says whether that send returned something other than -1.
\<close>

definition send_outcome :: "device \<Rightarrow> bool \<times> device \<Rightarrow> bool" where
  "send_outcome d res =
     (length (calls d) < length (calls (snd res)) \<and> is_send (last (calls (snd res))) \<and>
      fst res = (call_result (last (calls (snd res))) \<noteq> - 1))"

section \<open>Facts about the transport wrappers\<close>

lemma length_overwrite: "length (overwrite written msg) = length msg"
  by (simp add: overwrite_def)

lemma overwrite_Nil: "overwrite [] msg = msg"
  by (simp add: overwrite_def)

lemma get_feature_report_calls:
  "get_feature_report e d msg = (result, data', d') \<Longrightarrow>
     d' = d\<lparr>calls := calls d @
       [Get_report (handle d) msg result (snd (hid_get_feature_report e (calls d) (handle d) msg))]\<rparr> \<and>
     result = fst (hid_get_feature_report e (calls d) (handle d) msg) \<and>
     data' = overwrite (snd (hid_get_feature_report e (calls d) (handle d) msg)) msg \<and>
     length data' = length msg"
  by (auto simp: get_feature_report_def length_overwrite split: prod.splits)

lemma get_colour_calls:
  "in_int_range ((index + 1) * 3) \<Longrightarrow> in_int_range (index * 3 + 4) \<Longrightarrow>
   length (calls (snd (get_colour e d index))) = length (calls d) + 1"
  by (auto simp: get_colour_def Let_def dest!: get_feature_report_calls
      split: prod.splits option.splits)

section \<open>The report class table\<close>

text \<open>
  C1, as the code has it: a byte count in [0,24] gives report id 6 and 8 LEDs, (24,48]
  gives (7,16), (48,96] gives (8,32), (96,192] gives (9,64), (192,384] gives (10,64); a
  byte count above 384 takes no branch and keeps the initial values, report id 9 with 64
  LEDs.
\<close>

theorem determine_report_id_tiers:
  "(0 \<le> count \<and> count \<le> 24 \<longrightarrow> determine_report_id count = (6, 8)) \<and>
   (24 < count \<and> count \<le> 48 \<longrightarrow> determine_report_id count = (7, 16)) \<and>
   (48 < count \<and> count \<le> 96 \<longrightarrow> determine_report_id count = (8, 32)) \<and>
   (96 < count \<and> count \<le> 192 \<longrightarrow> determine_report_id count = (9, 64)) \<and>
   (192 < count \<and> count \<le> 384 \<longrightarrow> determine_report_id count = (10, 64)) \<and>
   (384 < count \<longrightarrow> determine_report_id count = (9, 64))"
  by (simp add: determine_report_id_def)

theorem determine_report_id_tiers_witness:
  "determine_report_id 0 = (6, 8) \<and> determine_report_id 24 = (6, 8) \<and>
   determine_report_id 25 = (7, 16) \<and> determine_report_id 96 = (8, 32) \<and>
   determine_report_id 192 = (9, 64) \<and> determine_report_id 384 = (10, 64) \<and>
   determine_report_id 765 = (9, 64)"
  using determine_report_id_tiers [of 0] determine_report_id_tiers [of 24]
    determine_report_id_tiers [of 25] determine_report_id_tiers [of 96]
    determine_report_id_tiers [of 192] determine_report_id_tiers [of 384]
    determine_report_id_tiers [of 765]
  by simp

text \<open>C1 as written fails just above the last threshold: 385 bytes give report id 9, not 10.\<close>

theorem determine_report_id_above_384_counterexample:
  "determine_report_id 385 = (9, 64) \<and> determine_report_id 385 \<noteq> (10, 64)"
  by (simp add: determine_report_id_def)

section \<open>The control message\<close>

text \<open>
  C2: \<open>build_control_message\<close> returns the four bytes 0x01, R, G, B exactly when index
  and channel are both 0, and the six bytes 0x05, channel, index, R, G, B for every other
  pair.
\<close>

theorem build_control_message_formats:
  "(index = 0 \<and> channel = 0 \<longrightarrow>
      build_control_message index channel (r, g, b) = [0x01, r, g, b]) \<and>
   (\<not> (index = 0 \<and> channel = 0) \<longrightarrow>
      build_control_message index channel (r, g, b) = [0x05, channel, index, r, g, b]) \<and>
   (length (build_control_message index channel (r, g, b)) = 4 \<longleftrightarrow> index = 0 \<and> channel = 0)"
  by (simp add: build_control_message_def)

theorem build_control_message_formats_witness:
  "build_control_message 0 0 (10, 20, 30) = [0x01, 10, 20, 30] \<and>
   build_control_message 0 1 (10, 20, 30) = [0x05, 1, 0, 10, 20, 30] \<and>
   build_control_message 3 0 (10, 20, 30) = [0x05, 0, 3, 10, 20, 30]"
  using build_control_message_formats [of 0 0 10 20 30]
    build_control_message_formats [of 0 1 10 20 30]
    build_control_message_formats [of 3 0 10 20 30]
  by simp

section \<open>Operations on a null handle\<close>

text \<open>
  The four writing operations test the handle first: on a null handle they return false
  and leave the device and its call log as they were.
\<close>

lemma null_handle_writes_make_no_call:
  "handle d = None \<Longrightarrow>
   set_mode e d mode = (False, d) \<and>
   set_colour e d channel index r g b = (False, d) \<and>
   set_colours e d channel colours = (False, d) \<and>
   set_led_count e d count = (False, d)"
  by (simp add: set_mode_def set_colour_def set_colours_def set_led_count_def)

text \<open>
  C4 at its failing inputs: \<open>get_mode\<close>, \<open>get_colour\<close> and \<open>get_led_count\<close> (cache
  unset) have no null check, so on a device whose handle is null each of them makes one
  transport call, whatever the transport answers.
\<close>

theorem null_handle_reads_call_transport:
  "length (calls (snd (get_mode e unknown (new_device None)))) = 1 \<and>
   length (calls (snd (get_colour e (new_device None) 0))) = 1 \<and>
   length (calls (snd (get_colour e (new_device None) 1))) = 1 \<and>
   length (calls (snd (get_led_count e (new_device None)))) = 1"
proof -
  have "length (calls (snd (get_mode e unknown (new_device None)))) = 1"
    by (simp add: get_mode_def new_device_def send_feature_report_def Let_def)
  moreover have "length (calls (snd (get_colour e (new_device None) 0))) = 1"
    by (simp add: get_colour_calls in_int_range_def new_device_def)
  moreover have "length (calls (snd (get_colour e (new_device None) 1))) = 1"
    by (simp add: get_colour_calls in_int_range_def new_device_def)
  moreover have "length (calls (snd (get_led_count e (new_device None)))) = 1"
    by (auto simp: get_led_count_def new_device_def Let_def dest!: get_feature_report_calls
        split: prod.splits)
  ultimately show ?thesis by simp
qed

section \<open>The LED count and its cache\<close>

lemma get_led_count_uncached:
  "led_count d = None \<Longrightarrow>
   get_led_count e d =
     (case hid_get_feature_report e (calls d) (handle d) [0x81, 0] of (result, written) \<Rightarrow>
        let data' = overwrite written [0x81, 0] in
        (uint (data' ! 1),
         d\<lparr>led_count := Some (data' ! 1),
           calls := calls d @ [Get_report (handle d) [0x81, 0] result written]\<rparr>))"
  by (simp add: get_led_count_def get_feature_report_def build_count_message_def Let_def
      split: prod.splits)

lemma get_led_count_cached: "led_count d = Some c \<Longrightarrow> get_led_count e d = (uint c, d)"
  by (simp add: get_led_count_def)

lemma get_led_count_calls_mono:
  "get_led_count e d = (n, d1) \<Longrightarrow> length (calls d) \<le> length (calls d1) \<and> handle d1 = handle d"
  by (cases "led_count d")
    (auto simp: get_led_count_uncached get_led_count_cached Let_def split: prod.splits)

text \<open>
  C5, as the code has it: with the cache unset, \<open>get_led_count\<close> hands the count message
  built with value 0, the bytes 0x81 and 0, to the get-feature-report primitive (not to the
  send primitive that \<open>get_mode\<close> uses), then caches and returns byte 1 of the buffer the
  transport has overwritten in place.
\<close>

theorem get_led_count_reads_via_get:
  assumes "led_count d = None"
    and "hid_get_feature_report e (calls d) (handle d) (build_count_message 0) = (result, written)"
    and "get_led_count e d = (n, d')"
  shows "calls d' = calls d @ [Get_report (handle d) [0x81, 0] result written] \<and>
         \<not> is_send (last (calls d')) \<and>
         led_count d' = Some (overwrite written [0x81, 0] ! 1) \<and>
         n = uint (overwrite written [0x81, 0] ! 1) \<and>
         handle d' = handle d"
  using assms by (auto simp: get_led_count_uncached build_count_message_def Let_def)

theorem get_led_count_reads_via_get_witness:
  "get_led_count (constant_env 0 2 [0x81, 8]) (new_device (Some 0)) =
     (8, \<lparr>handle = Some 0, led_count = Some 8,
          calls = [Get_report (Some 0) [0x81, 0] 2 [0x81, 8]]\<rparr>)"
proof -
  obtain n d' where g: "get_led_count (constant_env 0 2 [0x81, 8]) (new_device (Some 0)) = (n, d')"
    by (cases "get_led_count (constant_env 0 2 [0x81, 8]) (new_device (Some 0))")
  have a: "led_count (new_device (Some 0)) = None" by (simp add: new_device_def)
  have b: "hid_get_feature_report (constant_env 0 2 [0x81, 8]) (calls (new_device (Some 0)))
      (handle (new_device (Some 0))) (build_count_message 0) = (2, [0x81, 8])"
    by (simp add: constant_env_def)
  have c: "more d' = ()" by simp
  from get_led_count_reads_via_get [OF a b g] c show ?thesis
    unfolding g by (cases d') (simp add: new_device_def overwrite_def)
qed

text \<open>
  C5 as written fails: the one transport call of an uncached \<open>get_led_count\<close> is a read,
  and no send is made.
\<close>

theorem get_led_count_query_counterexample:
  "calls (snd (get_led_count (constant_env 0 2 [0x81, 8]) (new_device (Some 0)))) =
     [Get_report (Some 0) [0x81, 0] 2 [0x81, 8]] \<and>
   \<not> list_ex is_send (calls (snd (get_led_count (constant_env 0 2 [0x81, 8]) (new_device (Some 0)))))"
  by (simp add: get_led_count_uncached new_device_def constant_env_def overwrite_def)

text \<open>
  C7: on a device whose cache is unset, two calls of \<open>get_led_count\<close> return the same
  value and make one transport call between them, the second call making none; and after
  a successful \<open>set_led_count n\<close>, \<open>get_led_count\<close> returns \<open>n\<close> and leaves the
  device, its call log included, as it was.
\<close>

theorem led_count_cache:
  "(led_count d = None \<longrightarrow>
      fst (get_led_count e (snd (get_led_count e d))) = fst (get_led_count e d) \<and>
      length (calls (snd (get_led_count e d))) = length (calls d) + 1 \<and>
      calls (snd (get_led_count e (snd (get_led_count e d)))) = calls (snd (get_led_count e d))) \<and>
   (fst (set_led_count e d n) \<longrightarrow>
      get_led_count e (snd (set_led_count e d n)) = (uint n, snd (set_led_count e d n)))"
proof -
  have "get_led_count e (snd (set_led_count e d n)) = (uint n, snd (set_led_count e d n))"
    if "fst (set_led_count e d n)"
    using that
    by (auto simp: set_led_count_def send_feature_report_def Let_def get_led_count_cached
        split: if_splits)
  moreover have "fst (get_led_count e (snd (get_led_count e d))) = fst (get_led_count e d) \<and>
      length (calls (snd (get_led_count e d))) = length (calls d) + 1 \<and>
      calls (snd (get_led_count e (snd (get_led_count e d)))) = calls (snd (get_led_count e d))"
    if "led_count d = None"
    using that
    by (auto simp: get_led_count_uncached get_led_count_cached Let_def split: prod.splits)
  ultimately show ?thesis by blast
qed

theorem led_count_cache_witness:
  "fst (get_led_count (constant_env 0 2 [0x81, 8]) (new_device (Some 0))) = 8 \<and>
   fst (get_led_count (constant_env 0 2 [0x81, 8])
      (snd (get_led_count (constant_env 0 2 [0x81, 8]) (new_device (Some 0))))) = 8 \<and>
   length (calls (snd (get_led_count (constant_env 0 2 [0x81, 8])
      (snd (get_led_count (constant_env 0 2 [0x81, 8]) (new_device (Some 0))))))) = 1 \<and>
   fst (set_led_count (constant_env 0 2 [0x81, 8]) (new_device (Some 0)) 32) \<and>
   fst (get_led_count (constant_env 0 2 [0x81, 8])
      (snd (set_led_count (constant_env 0 2 [0x81, 8]) (new_device (Some 0)) 32))) = 32 \<and>
   length (calls (snd (get_led_count (constant_env 0 2 [0x81, 8])
      (snd (set_led_count (constant_env 0 2 [0x81, 8]) (new_device (Some 0)) 32))))) = 1"
proof -
  have a: "led_count (new_device (Some 0)) = None" by (simp add: new_device_def)
  have b: "fst (set_led_count (constant_env 0 2 [0x81, 8]) (new_device (Some 0)) 32)"
    by (simp add: set_led_count_def send_feature_report_def constant_env_def new_device_def)
  have c: "fst (get_led_count (constant_env 0 2 [0x81, 8]) (new_device (Some 0))) = 8"
    by (simp add: get_led_count_uncached new_device_def constant_env_def overwrite_def)
  have d: "length (calls (snd (set_led_count (constant_env 0 2 [0x81, 8]) (new_device (Some 0)) 32))) = 1"
    by (simp add: set_led_count_def send_feature_report_def constant_env_def new_device_def)
  from led_count_cache [of "new_device (Some 0)" "constant_env 0 2 [0x81, 8]" 32] a b c d
  show ?thesis by (simp add: new_device_def)
qed

section \<open>The result of a sending operation\<close>

lemma send_feature_report_outcome:
  "send_feature_report e d1 msg = (result, d2) \<Longrightarrow> length (calls d) \<le> length (calls d1) \<Longrightarrow>
   send_outcome d (result \<noteq> - 1, d2)"
  by (auto simp: send_feature_report_def send_outcome_def Let_def)

text \<open>
  C8, as the code has it: on a non-null handle each of \<open>set_mode\<close>, \<open>set_colour\<close>,
  \<open>set_colours\<close> and \<open>set_led_count\<close> ends with a send and returns false exactly when
  that send returned -1; every other return value, negative ones included, gives true.
\<close>

theorem send_operations_fail_on_minus_one:
  assumes "handle d \<noteq> None"
  shows "send_outcome d (set_mode e d mode) \<and>
         send_outcome d (set_colour e d channel index r g b) \<and>
         send_outcome d (set_colours e d channel colours) \<and>
         send_outcome d (set_led_count e d count)"
proof -
  have "send_outcome d (set_mode e d mode)"
    using assms
    by (auto simp: set_mode_def Let_def split: prod.splits
        dest!: send_feature_report_outcome [where d = d])
  moreover have "send_outcome d (set_colour e d channel index r g b)"
    using assms
    by (auto simp: set_colour_def Let_def split: prod.splits
        dest!: send_feature_report_outcome [where d = d])
  moreover have "send_outcome d (set_led_count e d count)"
    using assms
    by (auto simp: set_led_count_def Let_def send_feature_report_def send_outcome_def)
  moreover have "send_outcome d (set_colours e d channel colours)"
  proof -
    obtain n d1 where g: "get_led_count e d = (n, d1)" by (cases "get_led_count e d")
    from get_led_count_calls_mono [OF g] have le: "length (calls d) \<le> length (calls d1)" by simp
    show ?thesis
      using assms g le
      by (auto simp: set_colours_def Let_def split: prod.splits
          dest!: send_feature_report_outcome [where d = d])
  qed
  ultimately show ?thesis by simp
qed

theorem send_operations_fail_on_minus_one_witness:
  "\<not> fst (set_mode (constant_env (- 1) 0 []) (new_device (Some 0)) 1) \<and>
   fst (set_mode (constant_env 2 0 []) (new_device (Some 0)) 1) \<and>
   fst (set_mode (constant_env (- 2) 0 []) (new_device (Some 0)) 1)"
proof -
  have h: "handle (new_device (Some 0)) \<noteq> None" by (simp add: new_device_def)
  have c: "calls (snd (set_mode (constant_env x 0 []) (new_device (Some 0)) 1)) =
      [Send_report (Some 0) (build_mode_message 1) x]" for x
    by (simp add: set_mode_def send_feature_report_def constant_env_def new_device_def Let_def)
  from send_operations_fail_on_minus_one [OF h, THEN conjunct1, of "constant_env (- 1) 0 []" 1]
    send_operations_fail_on_minus_one [OF h, THEN conjunct1, of "constant_env 2 0 []" 1]
    send_operations_fail_on_minus_one [OF h, THEN conjunct1, of "constant_env (- 2) 0 []" 1]
  show ?thesis
    by (simp add: send_outcome_def c)
qed

text \<open>
  C8 as written fails at a negative return value other than -1: a transport that answers
  -2 makes the sending operations return true.
\<close>

theorem send_failure_counterexample:
  "hid_send_feature_report (constant_env (- 2) 0 []) [] (Some 0) (build_mode_message 1) < 0 \<and>
   fst (set_mode (constant_env (- 2) 0 []) (new_device (Some 0)) 1) \<and>
   fst (set_colour (constant_env (- 2) 0 []) (new_device (Some 0)) 0 0 1 2 3) \<and>
   fst (set_led_count (constant_env (- 2) 0 []) (new_device (Some 0)) 8)"
  by (simp add: set_mode_def set_colour_def set_led_count_def send_feature_report_def
      constant_env_def new_device_def)

section \<open>Reading a colour\<close>

lemma get_colour_request_length_high:
  "64 \<le> index \<Longrightarrow> length (get_colour_request index) = 194"
  by (simp add: get_colour_request_def determine_report_id_def Let_def)





text \<open>
  C9 at its failing inputs: for every index from 64 on, the request buffer of
  \<open>get_colour\<close> has 194 bytes (64 LEDs), while the three offsets read start at
  \<open>index * 3 + 2\<close>, which is 194 or more: whatever the transport wrote, all three reads
  fall past the end of the buffer.
\<close>

theorem get_colour_reads_past_buffer:
  assumes "64 \<le> index"
  shows "length (get_colour_request index) = 194 \<and>
         int (length (overwrite written (get_colour_request index))) \<le> index * 3 + 2 \<and>
         at_index (overwrite written (get_colour_request index)) (index * 3 + 2) = None \<and>
         at_index (overwrite written (get_colour_request index)) (index * 3 + 3) = None \<and>
         at_index (overwrite written (get_colour_request index)) (index * 3 + 4) = None"
  using assms
  by (auto simp: get_colour_request_length_high length_overwrite at_index_def)

theorem get_colour_reads_past_buffer_witness:
  "length (get_colour_request 64) = 194 \<and>
   at_index (overwrite (replicate 194 7) (get_colour_request 64)) 194 = None \<and>
   at_index (overwrite (replicate 194 7) (get_colour_request 64)) 195 = None \<and>
   at_index (overwrite (replicate 194 7) (get_colour_request 64)) 196 = None"
  using get_colour_reads_past_buffer [of 64 "replicate 194 7"] by simp






section \<open>A failed count query\<close>

text \<open>
  C10, as the code has it: when the cache is unset and the read of the count query returns
  -1, \<open>get_led_count\<close> still caches and returns byte 1 of the buffer as the transport
  left it; that byte is 0, the value the request was built with, when the failed read left
  the buffer as built. Every later \<open>get_led_count\<close> returns the cached value and leaves
  the device and its call log unchanged, so the query is not made again.
\<close>

theorem get_led_count_failed_read_caches_buffer:
  assumes "led_count d = None"
    and "hid_get_feature_report e (calls d) (handle d) (build_count_message 0) = (- 1, written)"
  shows "get_led_count e d =
           (uint (overwrite written [0x81, 0] ! 1),
            d\<lparr>led_count := Some (overwrite written [0x81, 0] ! 1),
              calls := calls d @ [Get_report (handle d) [0x81, 0] (- 1) written]\<rparr>) \<and>
         (\<forall>k. get_led_count e (((\<lambda>s. snd (get_led_count e s)) ^^ k) (snd (get_led_count e d))) =
                 (uint (overwrite written [0x81, 0] ! 1), snd (get_led_count e d))) \<and>
         (overwrite written [0x81, 0] = [0x81, 0] \<longrightarrow>
            fst (get_led_count e d) = 0 \<and> led_count (snd (get_led_count e d)) = Some 0)"
proof -
  define b where "b = overwrite written [0x81, 0] ! 1"
  define d1 where "d1 = d\<lparr>led_count := Some b,
      calls := calls d @ [Get_report (handle d) [0x81, 0] (- 1) written]\<rparr>"
  have first: "get_led_count e d = (uint b, d1)"
    using assms
    by (simp add: get_led_count_def get_feature_report_def build_count_message_def Let_def
        b_def d1_def)
  have again: "get_led_count e d1 = (uint b, d1)"
    by (simp add: get_led_count_def d1_def)
  have iter: "((\<lambda>s. snd (get_led_count e s)) ^^ k) d1 = d1" for k
    by (induction k) (simp_all add: again)
  have zero: "b = 0" if "overwrite written [0x81, 0] = [0x81, 0]"
    by (simp add: b_def that)
  have cached: "led_count d1 = Some b"
    by (simp add: d1_def)
  have "get_led_count e d = (uint b, d1) \<and>
      (\<forall>k. get_led_count e (((\<lambda>s. snd (get_led_count e s)) ^^ k) (snd (get_led_count e d))) =
         (uint b, snd (get_led_count e d))) \<and>
      (overwrite written [0x81, 0] = [0x81, 0] \<longrightarrow>
         fst (get_led_count e d) = 0 \<and> led_count (snd (get_led_count e d)) = Some 0)"
    using zero by (simp add: first iter again cached)
  then show ?thesis
    unfolding d1_def b_def .
qed

theorem get_led_count_failed_read_caches_buffer_witness:
  "get_led_count (constant_env 0 (- 1) []) (new_device (Some 0)) =
     (0, \<lparr>handle = Some 0, led_count = Some 0,
          calls = [Get_report (Some 0) [0x81, 0] (- 1) []]\<rparr>) \<and>
   get_led_count (constant_env 0 (- 1) [])
     (snd (get_led_count (constant_env 0 (- 1) [])
       (snd (get_led_count (constant_env 0 (- 1) []) (new_device (Some 0)))))) =
     (0, \<lparr>handle = Some 0, led_count = Some 0,
          calls = [Get_report (Some 0) [0x81, 0] (- 1) []]\<rparr>) \<and>
   get_led_count (constant_env 0 (- 1) [0x81, 5])
     (snd (get_led_count (constant_env 0 (- 1) [0x81, 5]) (new_device (Some 0)))) =
     (5, \<lparr>handle = Some 0, led_count = Some 5,
          calls = [Get_report (Some 0) [0x81, 0] (- 1) [0x81, 5]]\<rparr>)"
proof -
  have a: "led_count (new_device (Some 0)) = None" by (simp add: new_device_def)
  have b: "hid_get_feature_report (constant_env 0 (- 1) w) (calls (new_device (Some 0)))
      (handle (new_device (Some 0))) (build_count_message 0) = (- 1, w)" for w
    by (simp add: constant_env_def)
  have c: "overwrite [] [0x81, 0] = [0x81, 0]"
    by (rule overwrite_Nil)
  have c5: "overwrite [0x81, 5] [0x81, 0] ! 1 = 5"
    by (simp add: overwrite_def)
  note t = get_led_count_failed_read_caches_buffer [OF a b]
  from t [of "[]", THEN conjunct1] t [of "[]", THEN conjunct2, THEN conjunct1, THEN spec, of 1]
    t [of "[]", THEN conjunct2, THEN conjunct2] c
    t [of "[0x81, 5]", THEN conjunct1]
    t [of "[0x81, 5]", THEN conjunct2, THEN conjunct1, THEN spec, of 0] c5
  show ?thesis by (simp add: new_device_def)
qed

text \<open>
  C10 as written fails when the failed read has written into the buffer: a transport that
  returns -1 after writing the bytes 0x81 and 5 makes \<open>get_led_count\<close> cache and return
  5, not 0.
\<close>

theorem get_led_count_failed_read_counterexample:
  "fst (hid_get_feature_report (constant_env 0 (- 1) [0x81, 5]) [] (Some 0)
     (build_count_message 0)) = - 1 \<and>
   get_led_count (constant_env 0 (- 1) [0x81, 5]) (new_device (Some 0)) =
     (5, \<lparr>handle = Some 0, led_count = Some 5,
          calls = [Get_report (Some 0) [0x81, 0] (- 1) [0x81, 5]]\<rparr>) \<and>
   fst (get_led_count (constant_env 0 (- 1) [0x81, 5]) (new_device (Some 0))) \<noteq> 0"
  by (simp add: get_led_count_uncached new_device_def constant_env_def overwrite_def)

section \<open>Sending several colours\<close>

lemma take_three_updates:
  "index + 2 < length msg \<Longrightarrow>
   take (index + 3) (msg[index := a, index + 1 := b, index + 2 := c]) = take index msg @ [a, b, c]"
  by (rule nth_equalityI) (auto simp: nth_append nth_list_update less_Suc_eq numeral_3_eq_3)

lemma copy_colours_eq:
  "i \<le> n \<Longrightarrow> n \<le> length colours \<Longrightarrow> index + 3 * (n - i) \<le> length msg \<Longrightarrow>
   copy_colours colours n i index msg =
     take index msg @
     concat (map (\<lambda>c. [green c, red c, blue c]) (take (n - i) (drop i colours))) @
     drop (index + 3 * (n - i)) msg"
proof (induction colours n i index msg rule: copy_colours.induct)
  case (1 colours colourSize i index msg)
  show ?case
  proof (cases "i < colourSize")
    case False
    with "1.prems" show ?thesis by (simp add: copy_colours.simps)
  next
    case True
    let ?msg' = "msg[index := green (colours ! i), index + 1 := red (colours ! i),
                     index + 2 := blue (colours ! i)]"
    from True "1.prems" have len: "index + 2 < length msg" by simp
    from True "1.prems" have il: "i < length colours" by simp
    have sub: "colourSize - i = Suc (colourSize - (i + 1))" using True by simp
    have hd: "take (colourSize - i) (drop i colours) =
        colours ! i # take (colourSize - (i + 1)) (drop (i + 1) colours)"
      using il by (simp add: sub Cons_nth_drop_Suc [symmetric] del: drop_Suc)
    have ih: "copy_colours colours colourSize (i + 1) (index + 3) ?msg' =
        take (index + 3) ?msg' @
        concat (map (\<lambda>c. [green c, red c, blue c])
          (take (colourSize - (i + 1)) (drop (i + 1) colours))) @
        drop (index + 3 + 3 * (colourSize - (i + 1))) ?msg'"
      using True "1.prems" by (intro "1.IH") simp_all
    have idx: "index + 3 + 3 * (colourSize - (i + 1)) = index + 3 * (colourSize - i)"
      using True by simp
    have "copy_colours colours colourSize i index msg =
        copy_colours colours colourSize (i + 1) (index + 3) ?msg'"
      using True by (subst copy_colours.simps) simp
    also note ih
    finally have "copy_colours colours colourSize i index msg =
        (take index msg @ [green (colours ! i), red (colours ! i), blue (colours ! i)]) @
        concat (map (\<lambda>c. [green c, red c, blue c])
          (take (colourSize - (i + 1)) (drop (i + 1) colours))) @
        drop (index + 3 * (colourSize - i)) ?msg'"
      by (simp only: take_three_updates [OF len] idx)
    moreover have "drop (index + 3 * (colourSize - i)) ?msg' = drop (index + 3 * (colourSize - i)) msg"
      using True by simp
    ultimately show ?thesis
      by (simp only: hd) simp
  qed
qed

lemma colour_size_bounds:
  "unat (min (word_of_nat (length colours) :: byte) max_leds) \<le> length colours \<and>
   unat (min (word_of_nat (length colours) :: byte) max_leds) \<le> unat max_leds"
proof -
  have "unat (word_of_nat (length colours) :: byte) \<le> length colours"
    by (simp add: unat_of_nat)
  moreover have "unat (min (word_of_nat (length colours) :: byte) max_leds)
      \<le> unat (word_of_nat (length colours) :: byte)"
    by (simp add: word_le_nat_alt [symmetric])
  moreover have "unat (min (word_of_nat (length colours) :: byte) max_leds) \<le> unat max_leds"
    by (simp add: word_le_nat_alt [symmetric])
  ultimately show ?thesis by simp
qed

lemma colour_size_short:
  "length colours < 256 \<Longrightarrow>
   unat (min (word_of_nat (length colours) :: byte) max_leds) = min (length colours) (unat max_leds)"
  by (simp add: min_def word_le_nat_alt unat_of_nat)

lemma set_colours_message:
  fixes max_leds :: byte
  assumes "k \<le> length colours" and "k \<le> unat max_leds"
  shows "copy_colours colours k 0 2
           ((replicate (unat max_leds * 3 + 2) 0)[0 := report_id, 1 := channel]) =
         [report_id, channel] @
         concat (map (\<lambda>c. [green c, red c, blue c]) (take k colours)) @
         replicate (3 * (unat max_leds - k)) 0"
proof -
  let ?msg = "(replicate (unat max_leds * 3 + 2) 0)[0 := report_id, 1 := channel]"
  have hd: "take 2 ?msg = [report_id, channel]"
    by (rule nth_equalityI) (auto simp: nth_list_update less_Suc_eq numeral_2_eq_2)
  have tl: "drop (2 + 3 * k) ?msg = replicate (3 * (unat max_leds - k)) 0"
    using assms by (simp add: algebra_simps)
  have "copy_colours colours k 0 2 ?msg =
      take 2 ?msg @ concat (map (\<lambda>c. [green c, red c, blue c]) (take (k - 0) (drop 0 colours))) @
      drop (2 + 3 * (k - 0)) ?msg"
    using assms by (intro copy_colours_eq) simp_all
  then show ?thesis by (simp only: hd tl) simp
qed

text \<open>
  The buffer \<open>set_colours\<close> sends: report id, channel, then green, red, blue of the
  first \<open>colourSize\<close> colours, then zeros up to \<open>max_leds * 3 + 2\<close> bytes, where the
  report class comes from the LED count of the device. \<open>colourSize\<close> is computed from
  the length of the input narrowed to a byte.
\<close>

lemma set_colours_buffer:
  assumes "handle d \<noteq> None"
    and "get_led_count e d = (n, d1)"
    and "determine_report_id (n * 3) = (report_id, max_leds)"
  shows "call_buffer (last (calls (snd (set_colours e d channel colours)))) =
         [report_id, word_of_int channel] @
         concat (map (\<lambda>c. [green c, red c, blue c])
           (take (unat (min (word_of_nat (length colours)) max_leds)) colours)) @
         replicate (3 * (unat max_leds - unat (min (word_of_nat (length colours)) max_leds))) 0"
proof -
  let ?k = "unat (min (word_of_nat (length colours)) max_leds)"
  from colour_size_bounds [of colours max_leds]
  have k: "?k \<le> length colours" "?k \<le> unat max_leds" by simp_all
  from assms set_colours_message [OF k, of report_id "word_of_int channel"]
  show ?thesis
    by (auto simp: set_colours_def Let_def send_feature_report_def)
qed

text \<open>
  For fewer than 256 colours the narrowing changes nothing: the first
  \<open>min (length colours) max_leds\<close> colours are copied.
\<close>

lemma set_colours_buffer_short:
  assumes "handle d \<noteq> None"
    and "get_led_count e d = (n, d1)"
    and "determine_report_id (n * 3) = (report_id, max_leds)"
    and "length colours < 256"
  shows "call_buffer (last (calls (snd (set_colours e d channel colours)))) =
         [report_id, word_of_int channel] @
         concat (map (\<lambda>c. [green c, red c, blue c])
           (take (min (length colours) (unat max_leds)) colours)) @
         replicate (3 * (unat max_leds - min (length colours) (unat max_leds))) 0"
  using set_colours_buffer [OF assms(1-3), of channel colours] assms(4)
  by (simp only: colour_size_short)

lemma set_colours_255_colours:
  "set_colours (constant_env 0 0 [])
     \<lparr>handle = Some 0, led_count = Some 8, calls = []\<rparr> 0
     (replicate 255 \<lparr>red = 1, green = 2, blue = 3\<rparr>) =
   (True, \<lparr>handle = Some 0, led_count = Some 8,
           calls = [Send_report (Some 0)
             [6, 0, 2, 1, 3, 2, 1, 3, 2, 1, 3, 2, 1, 3, 2, 1, 3, 2, 1, 3, 2, 1, 3, 2, 1, 3] 0]\<rparr>)"
  by code_simp

text \<open>
  C3 at its failing input: with 256 colours and an 8-LED device the length narrows to 0,
  so no colour is copied and the 26-byte buffer carries zeros after the report id and the
  channel, where the first 8 colours were to be sent.
\<close>

theorem set_colours_256_colours:
  "set_colours (constant_env 0 0 [])
     \<lparr>handle = Some 0, led_count = Some 8, calls = []\<rparr> 0
     (replicate 256 \<lparr>red = 1, green = 2, blue = 3\<rparr>) =
   (True, \<lparr>handle = Some 0, led_count = Some 8,
           calls = [Send_report (Some 0) (6 # 0 # replicate 24 0) 0]\<rparr>)"
  by (simp add: set_colours_def get_led_count_def determine_report_id_def
      send_feature_report_def constant_env_def copy_colours.simps)

end
